theory Spec2Isabelle
  imports Main
begin

section \<open>Errors, abnormal ends and the log of external calls\<close>

text \<open>
  A Go \<^verbatim>\<open>error\<close> value is known by its \<^verbatim>\<open>Error()\<close> message. \<open>ErrorsNew\<close> is
  what \<^verbatim>\<open>errors.New\<close> and \<^verbatim>\<open>fmt.Errorf\<close> (without a wrapping verb) build;
  \<open>OtherError\<close> is any other error value, one that the storage or a callback supplies,
  with a tag for its identity and its message.
\<close>

datatype error = ErrorsNew string | OtherError nat string

fun Error :: "error \<Rightarrow> string" where
  "Error (ErrorsNew s) = s"
| "Error (OtherError i s) = s"

text \<open>
  The ways a call does not return to its caller: a nil pointer (or nil function) is
  dereferenced and the goroutine panics; \<^verbatim>\<open>sync.Mutex.Unlock\<close> finds the mutex
  unlocked, which the runtime answers with the fatal error
  \<^verbatim>\<open>sync: unlock of unlocked mutex\<close>; \<^verbatim>\<open>sync.Mutex.Lock\<close> finds the mutex locked
  and waits, which in a sequential run of one caller is for ever.
\<close>

datatype stop = NilDereference | UnlockOfUnlockedMutex | BlockedOnLock

text \<open>
  Every call that the manager makes on its collaborators (the mutex, the storage handle,
  the transaction handle) is appended to a log, so that "how many commits were issued" is
  a property of the log. A call that does not return is not logged.
\<close>

datatype event = LockEv | UnlockEv | BeginTxEv | CommitEv nat | RollbackEv nat

section \<open>The collaborators: \<^verbatim>\<open>sql.Tx\<close>, \<^verbatim>\<open>sql.DB\<close>, \<^verbatim>\<open>sync.Mutex\<close>\<close>

text \<open>
  The storage is outside the repository, so its answers are parameters: a transaction
  handle carries an identity and the answers of its \<^verbatim>\<open>Commit\<close> and
  \<^verbatim>\<open>Rollback\<close>, each a function of the log so far; a storage handle carries the
  answer of \<^verbatim>\<open>BeginTx\<close>. A pointer that may be nil is an \<open>option\<close>.
\<close>

record sql_Tx =
  tx_id :: nat
  commit_result :: "event list \<Rightarrow> error option"
  rollback_result :: "event list \<Rightarrow> error option"

record sql_DB =
  begin_result :: "event list \<Rightarrow> error + sql_Tx"

definition Db_BeginTx ::
  "sql_DB option \<Rightarrow> event list \<Rightarrow> stop + ((error + sql_Tx) \<times> event list)" where
  "Db_BeginTx db w =
     (case db of
        None \<Rightarrow> Inl NilDereference
      | Some d \<Rightarrow> Inr (begin_result d w, w @ [BeginTxEv]))"

definition Tx_Commit ::
  "sql_Tx option \<Rightarrow> event list \<Rightarrow> stop + (error option \<times> event list)" where
  "Tx_Commit t w =
     (case t of
        None \<Rightarrow> Inl NilDereference
      | Some x \<Rightarrow> Inr (commit_result x w, w @ [CommitEv (tx_id x)]))"

definition Tx_Rollback ::
  "sql_Tx option \<Rightarrow> event list \<Rightarrow> stop + (error option \<times> event list)" where
  "Tx_Rollback t w =
     (case t of
        None \<Rightarrow> Inl NilDereference
      | Some x \<Rightarrow> Inr (rollback_result x w, w @ [RollbackEv (tx_id x)]))"

section \<open>The manager\<close>

text \<open>
  \<^verbatim>\<open>type RepositoryFactory func(tx *sql.Tx) interface{}\<close> and the struct
  \<^verbatim>\<open>Uow\<close>. The field \<open>mu\<close> is the mutex: \<open>True\<close> when locked. The type \<open>'r\<close> stands
  for the repository values (\<^verbatim>\<open>interface{}\<close>).
\<close>

type_synonym 'r RepositoryFactory = "sql_Tx option \<Rightarrow> 'r"

record 'r Uow =
  Db :: "sql_DB option"
  Tx :: "sql_Tx option"
  mu :: bool
  Repositories :: "string \<rightharpoonup> 'r RepositoryFactory"

definition mu_Lock :: "'r Uow \<Rightarrow> event list \<Rightarrow> stop + ('r Uow \<times> event list)" where
  "mu_Lock u w =
     (if mu u then Inl BlockedOnLock else Inr (u\<lparr>mu := True\<rparr>, w @ [LockEv]))"

definition mu_Unlock :: "'r Uow \<Rightarrow> event list \<Rightarrow> stop + ('r Uow \<times> event list)" where
  "mu_Unlock u w =
     (if mu u then Inr (u\<lparr>mu := False\<rparr>, w @ [UnlockEv]) else Inl UnlockOfUnlockedMutex)"

definition NewUow :: "sql_DB option \<Rightarrow> 'r Uow" where
  "NewUow db = \<lparr>Db = db, Tx = None, mu = False, Repositories = Map.empty\<rparr>"

definition Register :: "'r Uow \<Rightarrow> string \<Rightarrow> 'r RepositoryFactory \<Rightarrow> 'r Uow" where
  "Register u name fc = u\<lparr>Repositories := (Repositories u)(name \<mapsto> fc)\<rparr>"

definition UnRegister :: "'r Uow \<Rightarrow> string \<Rightarrow> 'r Uow" where
  "UnRegister u name = u\<lparr>Repositories := (Repositories u)(name := None)\<rparr>"

text \<open>
  The last line of \<^verbatim>\<open>GetRepository\<close>: \<^verbatim>\<open>u.Repositories[name](u.Tx)\<close>. A name
  that is not a key of the map yields the nil function, and calling it panics.
\<close>

definition call_factory ::
  "'r Uow \<Rightarrow> event list \<Rightarrow> string \<Rightarrow> stop + (('r option \<times> error option) \<times> 'r Uow \<times> event list)" where
  "call_factory u w name =
     (case Repositories u name of
        None \<Rightarrow> Inl NilDereference
      | Some fc \<Rightarrow> Inr ((Some (fc (Tx u)), None), u, w))"

definition GetRepository ::
  "'r Uow \<Rightarrow> event list \<Rightarrow> string \<Rightarrow> stop + (('r option \<times> error option) \<times> 'r Uow \<times> event list)" where
  "GetRepository u w name =
     (if Tx u = None then
        (case Db_BeginTx (Db u) w of
           Inl s \<Rightarrow> Inl s
         | Inr (r, w1) \<Rightarrow>
             (case r of
                Inl err \<Rightarrow> Inr ((None, Some err), u, w1)
              | Inr tx \<Rightarrow> call_factory (u\<lparr>Tx := Some tx\<rparr>) w1 name))
      else call_factory u w name)"

definition Rollback ::
  "'r Uow \<Rightarrow> event list \<Rightarrow> error option \<Rightarrow> stop + (error option \<times> 'r Uow \<times> event list)" where
  "Rollback u w res =
     (if Tx u = None then
        (case mu_Unlock u w of
           Inl s \<Rightarrow> Inl s
         | Inr (u1, w1) \<Rightarrow> Inr (Some (ErrorsNew ''no transaction to rollback''), u1, w1))
      else
        (case Tx_Rollback (Tx u) w of
           Inl s \<Rightarrow> Inl s
         | Inr (err, w1) \<Rightarrow>
             (if err \<noteq> None then
                (case mu_Unlock u w1 of
                   Inl s \<Rightarrow> Inl s
                 | Inr (u2, w2) \<Rightarrow> Inr (err, u2, w2))
              else
                (case mu_Unlock (u\<lparr>Tx := None\<rparr>) w1 of
                   Inl s \<Rightarrow> Inl s
                 | Inr (u2, w2) \<Rightarrow> Inr (res, u2, w2)))))"

definition CommitOrRollback ::
  "'r Uow \<Rightarrow> event list \<Rightarrow> error option \<Rightarrow> stop + (error option \<times> 'r Uow \<times> event list)" where
  "CommitOrRollback u w res =
     (case Tx_Commit (Tx u) w of
        Inl s \<Rightarrow> Inl s
      | Inr (err, w1) \<Rightarrow>
          (case err of
             Some e \<Rightarrow>
               (case Rollback u w1 err of
                  Inl s \<Rightarrow> Inl s
                | Inr (resp, u2, w2) \<Rightarrow>
                    (case resp of
                       Some r \<Rightarrow>
                         (case mu_Unlock u2 w2 of
                            Inl s \<Rightarrow> Inl s
                          | Inr (u3, w3) \<Rightarrow>
                              Inr (Some (ErrorsNew (''commit error: '' @ Error e @
                                       '', rollback error: '' @ Error r)), u3, w3))
                     | None \<Rightarrow>
                         (case mu_Unlock u2 w2 of
                            Inl s \<Rightarrow> Inl s
                          | Inr (u3, w3) \<Rightarrow> Inr (err, u3, w3))))
           | None \<Rightarrow>
               (case mu_Unlock (u\<lparr>Tx := None\<rparr>) w1 of
                  Inl s \<Rightarrow> Inl s
                | Inr (u2, w2) \<Rightarrow> Inr (res, u2, w2))))"

text \<open>
  The callback of \<^verbatim>\<open>Do\<close> receives the manager itself, so it is a program on the
  manager and the log that returns an error or nil, or does not return.
\<close>

type_synonym 'r callback =
  "'r Uow \<Rightarrow> event list \<Rightarrow> stop + (error option \<times> 'r Uow \<times> event list)"

definition Do ::
  "'r Uow \<Rightarrow> event list \<Rightarrow> 'r callback \<Rightarrow> stop + (error option \<times> 'r Uow \<times> event list)" where
  "Do u w fn =
     (case mu_Lock u w of
        Inl s \<Rightarrow> Inl s
      | Inr (u1, w1) \<Rightarrow>
          (if Tx u1 \<noteq> None then
             Inr (Some (ErrorsNew ''transaction already started''), u1, w1)
           else
             (case Db_BeginTx (Db u1) w1 of
                Inl s \<Rightarrow> Inl s
              | Inr (r, w2) \<Rightarrow>
                  (case r of
                     Inl err \<Rightarrow> Inr (Some err, u1, w2)
                   | Inr tx \<Rightarrow>
                       (case fn (u1\<lparr>Tx := Some tx\<rparr>) w2 of
                          Inl s \<Rightarrow> Inl s
                        | Inr (res, u3, w3) \<Rightarrow>
                            (if res \<noteq> None then Rollback u3 w3 res
                             else CommitOrRollback u3 w3 res))))))"

section \<open>A caller that resolves several repositories\<close>

text \<open>
  Repeated calls of \<^verbatim>\<open>GetRepository\<close>, one per name, each on the manager and log
  that the call before left; the results are collected in order.
\<close>

fun GetRepositories ::
  "'r Uow \<Rightarrow> event list \<Rightarrow> string list \<Rightarrow>
     stop + (('r option \<times> error option) list \<times> 'r Uow \<times> event list)" where
  "GetRepositories u w [] = Inr ([], u, w)"
| "GetRepositories u w (n # ns) =
     (case GetRepository u w n of
        Inl s \<Rightarrow> Inl s
      | Inr (r, u1, w1) \<Rightarrow>
          (case GetRepositories u1 w1 ns of
             Inl s \<Rightarrow> Inl s
           | Inr (rs, u2, w2) \<Rightarrow> Inr (r # rs, u2, w2)))"

text \<open>A callback that resolves the given names and then returns \<open>res\<close>.\<close>

definition resolve_then_return :: "string list \<Rightarrow> error option \<Rightarrow> 'r callback" where
  "resolve_then_return names res u w =
     (case GetRepositories u w names of
        Inl s \<Rightarrow> Inl s
      | Inr (rs, u1, w1) \<Rightarrow> Inr (res, u1, w1))"

section \<open>Concrete storages and managers\<close>

text \<open>
  Four transaction handles (every combination of a commit and a rollback that succeed or
  fail), a storage that hands out a given handle, a storage that refuses to begin, and a
  manager with the factories \<^verbatim>\<open>"users"\<close> and \<^verbatim>\<open>"orders"\<close> registered. The
  repository that a factory builds is a number that shows which handle it was given.
\<close>

definition tx_ok :: sql_Tx where
  "tx_ok = \<lparr>tx_id = 1, commit_result = (\<lambda>w. None), rollback_result = (\<lambda>w. None)\<rparr>"

definition tx_commit_fails :: sql_Tx where
  "tx_commit_fails =
     \<lparr>tx_id = 2, commit_result = (\<lambda>w. Some (OtherError 2 ''commit refused'')),
      rollback_result = (\<lambda>w. None)\<rparr>"

definition tx_rollback_fails :: sql_Tx where
  "tx_rollback_fails =
     \<lparr>tx_id = 3, commit_result = (\<lambda>w. None),
      rollback_result = (\<lambda>w. Some (OtherError 3 ''rollback refused''))\<rparr>"

definition tx_both_fail :: sql_Tx where
  "tx_both_fail =
     \<lparr>tx_id = 4, commit_result = (\<lambda>w. Some (OtherError 2 ''commit refused'')),
      rollback_result = (\<lambda>w. Some (OtherError 3 ''rollback refused''))\<rparr>"

definition db_giving :: "sql_Tx \<Rightarrow> sql_DB" where
  "db_giving t = \<lparr>begin_result = (\<lambda>w. Inr t)\<rparr>"

definition db_down :: sql_DB where
  "db_down = \<lparr>begin_result = (\<lambda>w. Inl (OtherError 1 ''connection refused''))\<rparr>"

definition users_factory :: "nat RepositoryFactory" where
  "users_factory t = (case t of None \<Rightarrow> 0 | Some x \<Rightarrow> tx_id x)"

definition orders_factory :: "nat RepositoryFactory" where
  "orders_factory t = (case t of None \<Rightarrow> 0 | Some x \<Rightarrow> 100 + tx_id x)"

definition shop_uow :: "sql_DB \<Rightarrow> nat Uow" where
  "shop_uow db =
     Register (Register (NewUow (Some db)) ''users'' users_factory) ''orders'' orders_factory"

definition insufficient_funds :: error where
  "insufficient_funds = ErrorsNew ''insufficient funds''"

lemmas uow_ops =
  Do_def Rollback_def CommitOrRollback_def GetRepository_def call_factory_def
  mu_Lock_def mu_Unlock_def Db_BeginTx_def Tx_Commit_def Tx_Rollback_def
  NewUow_def Register_def UnRegister_def resolve_then_return_def

lemmas examples =
  tx_ok_def tx_commit_fails_def tx_rollback_fails_def tx_both_fail_def
  db_giving_def db_down_def users_factory_def orders_factory_def shop_uow_def
  insufficient_funds_def

section \<open>Shared facts about the resolution steps\<close>

text \<open>
  When the lock is free, no transaction is open and the storage begins one, \<^verbatim>\<open>Do\<close>
  runs the callback on the manager with the lock taken and the new handle stored, and
  resolves with \<^verbatim>\<open>Rollback\<close> or \<^verbatim>\<open>CommitOrRollback\<close> on what the callback left.
\<close>

lemma Do_reaches_callback:
  assumes "mu u = False" "Tx u = None" "Db u = Some db"
    and "begin_result db (w @ [LockEv]) = Inr tx"
    and "fn (u\<lparr>mu := True, Tx := Some tx\<rparr>) (w @ [LockEv, BeginTxEv]) = Inr (res, u3, w3)"
  shows "Do u w fn =
           (if res \<noteq> None then Rollback u3 w3 res else CommitOrRollback u3 w3 res)"
  using assms by (simp add: Do_def mu_Lock_def Db_BeginTx_def)

lemma CommitOrRollback_commit_ok:
  assumes "Tx u = Some t" "mu u" "commit_result t w = None"
  shows "CommitOrRollback u w res =
           Inr (res, u\<lparr>Tx := None, mu := False\<rparr>, w @ [CommitEv (tx_id t), UnlockEv])"
  using assms by (simp add: CommitOrRollback_def Tx_Commit_def mu_Unlock_def)

text \<open>\<^verbatim>\<open>Rollback\<close> releases the lock on each of its three returns.\<close>

lemma Rollback_leaves_unlocked:
  "Rollback u w res = Inr (resp, u', w') \<Longrightarrow> mu u' = False"
  by (auto simp: Rollback_def mu_Unlock_def Tx_Rollback_def split: if_splits option.splits)

text \<open>
  \<^verbatim>\<open>Rollback\<close> never returns nil when its passthrough value is an error: it returns
  its own error, the rollback's error, or the passthrough value. So in
  \<^verbatim>\<open>CommitOrRollback\<close> the test \<^verbatim>\<open>resp != nil\<close> holds whenever
  \<^verbatim>\<open>u.Rollback(err)\<close> returns.
\<close>

lemma Rollback_passes_error_through:
  "Rollback u w (Some e) \<noteq> Inr (None, u', w')"
  by (simp add: Rollback_def mu_Unlock_def Tx_Rollback_def split: option.splits)

text \<open>
  When the commit fails, \<^verbatim>\<open>CommitOrRollback\<close> calls \<^verbatim>\<open>Rollback\<close>, which
  releases the lock (or finds it free, which is fatal there), and then calls
  \<^verbatim>\<open>Unlock\<close> once more itself: in a sequential run it never returns.
\<close>

lemma CommitOrRollback_commit_fails:
  assumes "Tx u = Some t" "commit_result t w = Some e"
  shows "CommitOrRollback u w res = Inl UnlockOfUnlockedMutex"
  using assms
  by (auto simp: CommitOrRollback_def Tx_Commit_def Rollback_def Tx_Rollback_def mu_Unlock_def
      split: option.splits)

section \<open>Failures of \<^verbatim>\<open>Do\<close> before the callback\<close>

text \<open>
  Claim C1 says that \<^verbatim>\<open>Do\<close> releases the lock before it returns
  \<^verbatim>\<open>TransactionBeginFailed\<close> or \<^verbatim>\<open>TransactionAlreadyActive\<close>, so that a later
  \<^verbatim>\<open>Do\<close> can proceed. The code returns on both paths with the lock still held.
  On a fresh manager whose storage refuses to begin, \<^verbatim>\<open>Do\<close> returns the storage's
  error and leaves the mutex locked, and the next \<^verbatim>\<open>Do\<close> on that manager waits on
  the lock for ever. On a manager whose handle is already set (by a
  \<^verbatim>\<open>GetRepository\<close> outside \<^verbatim>\<open>Do\<close>), \<^verbatim>\<open>Do\<close> returns "transaction already
  started" and leaves the mutex locked as well.
\<close>

theorem Do_early_return_keeps_lock:
  "Do (shop_uow db_down) [] (resolve_then_return [''users''] None) =
     Inr (Some (OtherError 1 ''connection refused''),
          (shop_uow db_down)\<lparr>mu := True\<rparr>, [LockEv, BeginTxEv]) \<and>
   Do ((shop_uow db_down)\<lparr>mu := True\<rparr>) [LockEv, BeginTxEv]
      (resolve_then_return [''users''] None) = Inl BlockedOnLock \<and>
   GetRepository (shop_uow (db_giving tx_ok)) [] ''users'' =
     Inr ((Some 1, None), (shop_uow (db_giving tx_ok))\<lparr>Tx := Some tx_ok\<rparr>, [BeginTxEv]) \<and>
   Do ((shop_uow (db_giving tx_ok))\<lparr>Tx := Some tx_ok\<rparr>) [BeginTxEv]
      (resolve_then_return [''users''] None) =
     Inr (Some (ErrorsNew ''transaction already started''),
          (shop_uow (db_giving tx_ok))\<lparr>Tx := Some tx_ok, mu := True\<rparr>,
          [BeginTxEv, LockEv])"
  by (simp add: uow_ops examples)

section \<open>Resolving a name that was never registered\<close>

text \<open>
  Claim C2 says that \<^verbatim>\<open>GetRepository\<close> of a name with no registered factory returns
  a \<^verbatim>\<open>RepositoryNotFound\<close> error and never dereferences nil. The code does not look
  whether the name is a key: it calls what the map lookup yields. With only
  \<^verbatim>\<open>"users"\<close> and \<^verbatim>\<open>"orders"\<close> registered, resolving \<^verbatim>\<open>"missing"\<close> panics,
  on an idle manager (after the transaction was begun) and on an active one, and so does
  resolving \<^verbatim>\<open>"users"\<close> after \<^verbatim>\<open>UnRegister("users")\<close>.
\<close>

theorem GetRepository_missing_name_panics:
  "GetRepository (shop_uow (db_giving tx_ok)) [] ''missing'' = Inl NilDereference \<and>
   GetRepository ((shop_uow (db_giving tx_ok))\<lparr>Tx := Some tx_ok, mu := True\<rparr>)
     [LockEv, BeginTxEv] ''missing'' = Inl NilDereference \<and>
   GetRepository (UnRegister (shop_uow (db_giving tx_ok)) ''users'') [] ''users'' =
     Inl NilDereference"
  by (simp add: uow_ops examples)

section \<open>Lock releases of \<^verbatim>\<open>CommitOrRollback\<close>\<close>

text \<open>
  Claim C3 says that every branch of \<^verbatim>\<open>CommitOrRollback\<close> releases the lock exactly
  once before returning. When the commit fails, \<^verbatim>\<open>Rollback\<close> has released the lock
  already and \<^verbatim>\<open>CommitOrRollback\<close> calls \<^verbatim>\<open>Unlock\<close> a second time. On an
  active manager that holds the lock, with a handle whose commit and rollback both fail,
  the call ends in the fatal error of unlocking an unlocked mutex and does not return.
\<close>

theorem CommitOrRollback_unlocks_twice:
  "CommitOrRollback ((shop_uow (db_giving tx_both_fail))\<lparr>Tx := Some tx_both_fail, mu := True\<rparr>)
     [LockEv, BeginTxEv] None = Inl UnlockOfUnlockedMutex"
  by (simp add: uow_ops examples)

section \<open>A callback that returns an error\<close>

text \<open>
  Claim C4 says that for a callback returning the error \<open>e\<close>, exactly one rollback is
  issued and \<^verbatim>\<open>Do\<close> returns \<open>e\<close> unchanged. As stated it fails when the rollback
  itself fails: \<^verbatim>\<open>Rollback\<close> then returns the rollback's error, and so does
  \<^verbatim>\<open>Do\<close>. Here the callback returns "insufficient funds" and \<^verbatim>\<open>Do\<close> returns
  "rollback refused".
\<close>

theorem Do_returns_rollback_error:
  "Do (shop_uow (db_giving tx_rollback_fails)) []
      (resolve_then_return [''users''] (Some insufficient_funds)) =
     Inr (Some (OtherError 3 ''rollback refused''),
          (shop_uow (db_giving tx_rollback_fails))\<lparr>Tx := Some tx_rollback_fails\<rparr>,
          [LockEv, BeginTxEv, RollbackEv 3, UnlockEv]) \<and>
   OtherError 3 ''rollback refused'' \<noteq> insufficient_funds"
  by (simp add: uow_ops examples)

text \<open>
  Claim C4, amended. Let \<^verbatim>\<open>Do\<close> find the lock free and no transaction open, let the
  storage begin the transaction \<open>tx\<close>, and let the callback return the error \<open>e\<close>,
  leaving the handle \<open>tx\<close> in the manager and the lock held as \<^verbatim>\<open>Do\<close> set them.
  Then \<^verbatim>\<open>Do\<close> issues exactly one rollback on \<open>tx\<close> after the callback (the log is
  the callback's log followed by that rollback and the release of the lock), and it
  returns \<open>e\<close> unchanged, with the handle cleared, when the rollback succeeds, and the
  rollback's error, with the handle kept, when the rollback fails.
\<close>

theorem Do_callback_error:
  assumes "mu u = False" "Tx u = None" "Db u = Some db"
    and "begin_result db (w @ [LockEv]) = Inr tx"
    and "fn (u\<lparr>mu := True, Tx := Some tx\<rparr>) (w @ [LockEv, BeginTxEv]) = Inr (Some e, u3, w3)"
    and "Tx u3 = Some tx" "mu u3"
  shows "Do u w fn =
     (case rollback_result tx w3 of
        None \<Rightarrow>
          Inr (Some e, u3\<lparr>Tx := None, mu := False\<rparr>, w3 @ [RollbackEv (tx_id tx), UnlockEv])
      | Some re \<Rightarrow>
          Inr (Some re, u3\<lparr>mu := False\<rparr>, w3 @ [RollbackEv (tx_id tx), UnlockEv]))"
proof -
  have "Do u w fn = Rollback u3 w3 (Some e)"
    using assms(1-5) by (simp add: Do_reaches_callback)
  also have "\<dots> = (case rollback_result tx w3 of
        None \<Rightarrow>
          Inr (Some e, u3\<lparr>Tx := None, mu := False\<rparr>, w3 @ [RollbackEv (tx_id tx), UnlockEv])
      | Some re \<Rightarrow>
          Inr (Some re, u3\<lparr>mu := False\<rparr>, w3 @ [RollbackEv (tx_id tx), UnlockEv]))"
    using assms(6,7)
    by (simp add: Rollback_def mu_Unlock_def Tx_Rollback_def split: option.splits)
  finally show ?thesis .
qed

theorem Do_callback_error_witness:
  "mu (shop_uow (db_giving tx_ok)) = False \<and>
   Tx (shop_uow (db_giving tx_ok)) = None \<and>
   Db (shop_uow (db_giving tx_ok)) = Some (db_giving tx_ok) \<and>
   begin_result (db_giving tx_ok) [LockEv] = Inr tx_ok \<and>
   resolve_then_return [''users''] (Some insufficient_funds)
     ((shop_uow (db_giving tx_ok))\<lparr>mu := True, Tx := Some tx_ok\<rparr>) [LockEv, BeginTxEv] =
     Inr (Some insufficient_funds,
          (shop_uow (db_giving tx_ok))\<lparr>mu := True, Tx := Some tx_ok\<rparr>, [LockEv, BeginTxEv]) \<and>
   Do (shop_uow (db_giving tx_ok)) []
      (resolve_then_return [''users''] (Some insufficient_funds)) =
     Inr (Some insufficient_funds, shop_uow (db_giving tx_ok),
          [LockEv, BeginTxEv, RollbackEv 1, UnlockEv])"
  using Do_callback_error
    [where u = "shop_uow (db_giving tx_ok)" and db = "db_giving tx_ok" and w = "[]"
       and tx = tx_ok and fn = "resolve_then_return [''users''] (Some insufficient_funds)"
       and e = insufficient_funds
       and ?u3.0 = "(shop_uow (db_giving tx_ok))\<lparr>mu := True, Tx := Some tx_ok\<rparr>"
       and ?w3.0 = "[LockEv, BeginTxEv]"]
  by (simp add: uow_ops examples)

section \<open>The manager after \<^verbatim>\<open>Do\<close> has resolved\<close>

text \<open>
  Claim C5 says that when a \<^verbatim>\<open>Do\<close> that reached its callback completes, the
  manager is idle again (handle nil) and the lock is free, whatever the outcome, so that
  the next \<^verbatim>\<open>Do\<close> can proceed. When the rollback fails, \<^verbatim>\<open>Rollback\<close> releases
  the lock and returns without clearing the handle. Here the callback returns
  "insufficient funds" and the rollback is refused: \<^verbatim>\<open>Do\<close> completes with the handle
  still set, the next \<^verbatim>\<open>Do\<close> on the manager returns "transaction already started"
  and keeps the lock, and the one after that waits on the lock for ever.
\<close>

theorem Do_failed_rollback_keeps_handle:
  "Do (shop_uow (db_giving tx_rollback_fails)) []
      (resolve_then_return [''users'', ''orders''] (Some insufficient_funds)) =
     Inr (Some (OtherError 3 ''rollback refused''),
          (shop_uow (db_giving tx_rollback_fails))\<lparr>Tx := Some tx_rollback_fails\<rparr>,
          [LockEv, BeginTxEv, RollbackEv 3, UnlockEv]) \<and>
   Do ((shop_uow (db_giving tx_rollback_fails))\<lparr>Tx := Some tx_rollback_fails\<rparr>)
      [LockEv, BeginTxEv, RollbackEv 3, UnlockEv]
      (resolve_then_return [''users''] None) =
     Inr (Some (ErrorsNew ''transaction already started''),
          (shop_uow (db_giving tx_rollback_fails))\<lparr>Tx := Some tx_rollback_fails, mu := True\<rparr>,
          [LockEv, BeginTxEv, RollbackEv 3, UnlockEv, LockEv]) \<and>
   Do ((shop_uow (db_giving tx_rollback_fails))\<lparr>Tx := Some tx_rollback_fails, mu := True\<rparr>)
      [LockEv, BeginTxEv, RollbackEv 3, UnlockEv, LockEv]
      (resolve_then_return [''users''] None) = Inl BlockedOnLock"
  by (simp add: uow_ops examples)

section \<open>What \<^verbatim>\<open>CommitOrRollback\<close> returns\<close>

text \<open>
  Claim C6 says that \<^verbatim>\<open>CommitOrRollback\<close>, after a failed commit, returns the commit
  failure alone when the rollback succeeds and a combined error when it fails too. On an
  active manager that holds the lock, with a handle whose commit fails and whose rollback
  succeeds, the call does not return the commit failure: after \<^verbatim>\<open>Rollback\<close> has
  released the lock, the second \<^verbatim>\<open>Unlock\<close> is fatal. The value that
  \<^verbatim>\<open>Rollback\<close> hands back there is the commit error itself, not nil, so the branch
  that returns the commit failure alone would not be taken either. With a commit that
  succeeds the call clears the handle, releases the lock and returns the passthrough
  value.
\<close>

theorem CommitOrRollback_failed_commit_is_fatal:
  "CommitOrRollback
     ((shop_uow (db_giving tx_commit_fails))\<lparr>Tx := Some tx_commit_fails, mu := True\<rparr>)
     [LockEv, BeginTxEv] None = Inl UnlockOfUnlockedMutex \<and>
   Rollback
     ((shop_uow (db_giving tx_commit_fails))\<lparr>Tx := Some tx_commit_fails, mu := True\<rparr>)
     [LockEv, BeginTxEv, CommitEv 2] (Some (OtherError 2 ''commit refused'')) =
     Inr (Some (OtherError 2 ''commit refused''), shop_uow (db_giving tx_commit_fails),
          [LockEv, BeginTxEv, CommitEv 2, RollbackEv 2, UnlockEv]) \<and>
   CommitOrRollback ((shop_uow (db_giving tx_ok))\<lparr>Tx := Some tx_ok, mu := True\<rparr>)
     [LockEv, BeginTxEv] (Some insufficient_funds) =
     Inr (Some insufficient_funds, shop_uow (db_giving tx_ok),
          [LockEv, BeginTxEv, CommitEv 1, UnlockEv])"
  by (simp add: uow_ops examples)

section \<open>What \<^verbatim>\<open>Rollback\<close> returns\<close>

text \<open>
  \<^verbatim>\<open>Rollback\<close> calls \<^verbatim>\<open>Unlock\<close> before each of its three returns and never
  calls \<^verbatim>\<open>Lock\<close>. Entered with the lock held it returns as its branches say;
  entered with the lock free it never returns, whatever the handle is.
\<close>

lemma Rollback_lock_held:
  assumes "mu u"
  shows "Rollback u w res =
     (case Tx u of
        None \<Rightarrow>
          Inr (Some (ErrorsNew ''no transaction to rollback''), u\<lparr>mu := False\<rparr>, w @ [UnlockEv])
      | Some t \<Rightarrow>
          (case rollback_result t w of
             Some e \<Rightarrow> Inr (Some e, u\<lparr>mu := False\<rparr>, w @ [RollbackEv (tx_id t), UnlockEv])
           | None \<Rightarrow>
               Inr (res, u\<lparr>Tx := None, mu := False\<rparr>, w @ [RollbackEv (tx_id t), UnlockEv])))"
  using assms
  by (simp add: Rollback_def mu_Unlock_def Tx_Rollback_def split: option.splits)

lemma Rollback_lock_free_is_fatal:
  assumes "\<not> mu u"
  shows "Rollback u w res = Inl UnlockOfUnlockedMutex"
  using assms
  by (simp add: Rollback_def mu_Unlock_def Tx_Rollback_def split: option.splits)

text \<open>
  Claim C7 says that \<^verbatim>\<open>Rollback\<close> returns \<^verbatim>\<open>NoActiveTransaction\<close> without
  panicking when no transaction is active. The guard for the nil handle is there, but it
  calls \<^verbatim>\<open>Unlock\<close> before it returns its error, and an idle manager does not hold
  the lock: on a manager fresh from \<^verbatim>\<open>NewUow\<close>, with or without a storage handle
  and with or without a passthrough error, the release is the fatal unlock of an unlocked
  mutex and "no transaction to rollback" is never returned. The same holds on the idle
  manager that a completed \<^verbatim>\<open>Do\<close> leaves behind.
\<close>

theorem Rollback_idle_unlocked_is_fatal:
  "Rollback (shop_uow (db_giving tx_ok)) [] None = Inl UnlockOfUnlockedMutex \<and>
   Rollback (NewUow None :: nat Uow) [] (Some insufficient_funds) =
     Inl UnlockOfUnlockedMutex \<and>
   Do (shop_uow (db_giving tx_ok)) [] (resolve_then_return [''users''] None) =
     Inr (None, shop_uow (db_giving tx_ok), [LockEv, BeginTxEv, CommitEv 1, UnlockEv]) \<and>
   Rollback (shop_uow (db_giving tx_ok)) [LockEv, BeginTxEv, CommitEv 1, UnlockEv] None =
     Inl UnlockOfUnlockedMutex"
  by (simp add: uow_ops examples)

section \<open>A callback that returns nil\<close>

text \<open>
  Claim C8 says that for every callback returning nil, exactly one commit is issued, the
  manager ends idle and \<^verbatim>\<open>Do\<close> returns nil. As stated it fails when the commit
  fails: \<^verbatim>\<open>Do\<close> does not return nil then. Here the callback returns nil and the
  commit is refused.
\<close>

theorem Do_failed_commit_not_nil:
  "Do (shop_uow (db_giving tx_commit_fails)) [] (resolve_then_return [''users''] None) =
     Inl UnlockOfUnlockedMutex"
  by (simp add: uow_ops examples)

text \<open>
  Claim C8, amended. Let \<^verbatim>\<open>Do\<close> find the lock free and no transaction open, let the
  storage begin the transaction \<open>tx\<close>, and let the callback return nil, leaving the
  handle \<open>tx\<close> in the manager and the lock held as \<^verbatim>\<open>Do\<close> set them. If the commit
  of \<open>tx\<close> succeeds, then \<^verbatim>\<open>Do\<close> has issued exactly one commit on \<open>tx\<close> after the
  callback and no rollback, the manager ends idle (handle nil) with the lock released,
  and \<^verbatim>\<open>Do\<close> returns nil.
\<close>

theorem Do_callback_nil:
  assumes "mu u = False" "Tx u = None" "Db u = Some db"
    and "begin_result db (w @ [LockEv]) = Inr tx"
    and "fn (u\<lparr>mu := True, Tx := Some tx\<rparr>) (w @ [LockEv, BeginTxEv]) = Inr (None, u3, w3)"
    and "Tx u3 = Some tx" "mu u3"
    and "commit_result tx w3 = None"
  shows "Do u w fn =
     Inr (None, u3\<lparr>Tx := None, mu := False\<rparr>, w3 @ [CommitEv (tx_id tx), UnlockEv])"
proof -
  have "Do u w fn = CommitOrRollback u3 w3 None"
    using assms(1-5) by (simp add: Do_reaches_callback)
  then show ?thesis
    using assms(6-8) by (simp add: CommitOrRollback_commit_ok)
qed

theorem Do_callback_nil_witness:
  "mu (shop_uow (db_giving tx_ok)) = False \<and>
   Tx (shop_uow (db_giving tx_ok)) = None \<and>
   Db (shop_uow (db_giving tx_ok)) = Some (db_giving tx_ok) \<and>
   begin_result (db_giving tx_ok) [LockEv] = Inr tx_ok \<and>
   resolve_then_return [''users'', ''orders''] None
     ((shop_uow (db_giving tx_ok))\<lparr>mu := True, Tx := Some tx_ok\<rparr>) [LockEv, BeginTxEv] =
     Inr (None, (shop_uow (db_giving tx_ok))\<lparr>mu := True, Tx := Some tx_ok\<rparr>,
          [LockEv, BeginTxEv]) \<and>
   commit_result tx_ok [LockEv, BeginTxEv] = None \<and>
   Do (shop_uow (db_giving tx_ok)) [] (resolve_then_return [''users'', ''orders''] None) =
     Inr (None, shop_uow (db_giving tx_ok), [LockEv, BeginTxEv, CommitEv 1, UnlockEv])"
  using Do_callback_nil
    [where u = "shop_uow (db_giving tx_ok)" and db = "db_giving tx_ok" and w = "[]"
       and tx = tx_ok and fn = "resolve_then_return [''users'', ''orders''] None"
       and ?u3.0 = "(shop_uow (db_giving tx_ok))\<lparr>mu := True, Tx := Some tx_ok\<rparr>"
       and ?w3.0 = "[LockEv, BeginTxEv]"]
  by (simp add: uow_ops examples)

section \<open>Repeated resolutions share the transaction\<close>

text \<open>
  Claim C9. While the manager holds a transaction handle \<open>t\<close>, as it does from the
  begin of \<^verbatim>\<open>Do\<close> to its resolution, any sequence of \<^verbatim>\<open>GetRepository\<close> calls for
  registered names (the same name or different ones) returns, for each name, the
  repository that its factory builds from \<open>t\<close>, with a nil error; the manager is left as
  it was, still holding \<open>t\<close>, and the log is left as it was, so the calls invoke
  \<^verbatim>\<open>BeginTx\<close> not at all and the begin of \<^verbatim>\<open>Do\<close> stays the only one.
\<close>

theorem GetRepository_reuses_handle:
  assumes "Tx u = Some t"
    and "list_all (\<lambda>n. Repositories u n \<noteq> None) names"
  shows "GetRepositories u w names =
     Inr (map (\<lambda>n. (Some (the (Repositories u n) (Some t)), None)) names, u, w)"
  using assms
  by (induction names) (auto simp: GetRepository_def call_factory_def)

theorem GetRepository_reuses_handle_witness:
  "Tx ((shop_uow (db_giving tx_ok))\<lparr>Tx := Some tx_ok, mu := True\<rparr>) = Some tx_ok \<and>
   list_all
     (\<lambda>n. Repositories ((shop_uow (db_giving tx_ok))\<lparr>Tx := Some tx_ok, mu := True\<rparr>) n \<noteq> None)
     [''users'', ''orders'', ''users''] \<and>
   GetRepositories ((shop_uow (db_giving tx_ok))\<lparr>Tx := Some tx_ok, mu := True\<rparr>)
     [LockEv, BeginTxEv] [''users'', ''orders'', ''users''] =
     Inr ([(Some 1, None), (Some 101, None), (Some 1, None)],
          (shop_uow (db_giving tx_ok))\<lparr>Tx := Some tx_ok, mu := True\<rparr>, [LockEv, BeginTxEv])"
  using GetRepository_reuses_handle
    [of "(shop_uow (db_giving tx_ok))\<lparr>Tx := Some tx_ok, mu := True\<rparr>" tx_ok
        "[''users'', ''orders'', ''users'']" "[LockEv, BeginTxEv]"]
  by (simp add: examples NewUow_def Register_def)

section \<open>Commit-or-rollback on an idle manager\<close>

text \<open>
  Claim C10. \<^verbatim>\<open>CommitOrRollback\<close> has no guard for a nil transaction handle (unlike
  \<^verbatim>\<open>Rollback\<close>): called on a manager whose handle is nil, its first statement
  \<^verbatim>\<open>u.Tx.Commit()\<close> dereferences nil and panics, whatever the lock, the log and the
  passthrough error are.
\<close>

theorem CommitOrRollback_idle_panics:
  "Tx u = None \<Longrightarrow> CommitOrRollback u w res = Inl NilDereference"
  by (simp add: CommitOrRollback_def Tx_Commit_def)

theorem CommitOrRollback_idle_panics_witness:
  "Tx (NewUow None :: nat Uow) = None \<and>
   CommitOrRollback (NewUow None :: nat Uow) [] None = Inl NilDereference"
  using CommitOrRollback_idle_panics [of "NewUow None :: nat Uow" "[]" None]
  by (simp add: NewUow_def)

end
